theory Spec2Isabelle
  imports Main
begin

section \<open>Values shared by the two components\<close>

text \<open>
  Strings are JavaScript strings; a \<open>char\<close> stands for one code unit, which is what
  \<open>.length\<close> and zod's \<open>min\<close> count.

  A value that reaches a \<open>catch (error)\<close> clause is any JavaScript value. The handlers
  of both components read two things off it: whether it is an instance of \<open>Error\<close>
  (then its \<open>message\<close>, a string), and nothing else. A value that is not an \<open>Error\<close>
  instance may still carry a \<open>message\<close> property (a plain error object), or none.
\<close>

datatype thrown =
    ErrorInstance string
  | NonError "string option"

text \<open>\<open>error instanceof Error ? error.message : "An error occurred"\<close>, the expression of
  Auth.tsx line 72 and of the profile component's lines 90 and 119.\<close>

fun error_description :: "thrown \<Rightarrow> string" where
  "error_description (ErrorInstance m) = m"
| "error_description (NonError p) = ''An error occurred''"

text \<open>The \<open>message\<close> property of a caught value, when it has one.\<close>

fun message_of :: "thrown \<Rightarrow> string option" where
  "message_of (ErrorInstance m) = Some m"
| "message_of (NonError p) = p"

text \<open>
  An awaited collaborator call either resolves with the client's response object or
  rejects; a rejection is thrown at the \<open>await\<close>. The response objects of the backend
  client carry an \<open>error\<close> member that is \<open>null\<close> (here \<open>None\<close>) on success.
\<close>

datatype 'r settled = Resolved 'r | Rejected thrown

datatype toast = Toast (destructive: bool) (title: string) (description: string)

section \<open>Auth.tsx: the sign-in form\<close>

text \<open>
  The component state: the two \<open>useState\<close> cells, the form library's value and
  error message of the one field \<open>email\<close>, and, as ghost state, the log of
  \<open>supabase.auth.signInWithOtp\<close> calls (the email of each, oldest first) and the
  toasts shown.
\<close>

record auth_state =
  auth_loading :: bool
  showSuccess :: bool
  email :: string
  email_message :: "string option"
  signInWithOtp_calls :: "string list"
  auth_toasts :: "toast list"

text \<open>\<open>useState(false)\<close> twice, \<open>defaultValues: { email: "" }\<close>.\<close>

definition Auth_init :: auth_state where
  "Auth_init = \<lparr> auth_loading = False, showSuccess = False, email = '''',
     email_message = None, signInWithOtp_calls = [], auth_toasts = [] \<rparr>"

text \<open>
  \<open>formSchema\<close> (lines 32-36): \<open>z.string().email({ message: ... })\<close>. The email
  grammar is zod's, a library outside the repository, so it is the parameter
  \<open>is_email\<close>. The result is the message for the field, \<open>None\<close> when it parses.
\<close>

definition Auth_formSchema :: "(string \<Rightarrow> bool) \<Rightarrow> string \<Rightarrow> string option" where
  "Auth_formSchema is_email e =
     (if is_email e then None else Some ''Please enter a valid email address.'')"

text \<open>
  \<open>onSubmit\<close> (lines 50-77) is an async function with one suspension point, the
  \<open>await\<close> of line 55. \<open>Auth_onSubmit_begin\<close> is the part before it (lines 52-57),
  \<open>Auth_onSubmit_resume\<close> the part after it (lines 59-76), given how the call settled.
\<close>

definition Auth_onSubmit_begin :: "string \<Rightarrow> auth_state \<Rightarrow> auth_state" where
  "Auth_onSubmit_begin e st =
     st\<lparr> auth_loading := True, showSuccess := False,
         signInWithOtp_calls := signInWithOtp_calls st @ [e] \<rparr>"

text \<open>What the \<open>try\<close> block throws: a rejection of the call, or the response's
  \<open>error\<close> when it is not null (line 59).\<close>

fun failure :: "thrown option settled \<Rightarrow> thrown option" where
  "failure (Rejected x) = Some x"
| "failure (Resolved err) = err"

definition Auth_onSubmit_resume :: "thrown option settled \<Rightarrow> auth_state \<Rightarrow> auth_state" where
  "Auth_onSubmit_resume r st =
     (case failure r of
        None \<Rightarrow>
          st\<lparr> showSuccess := True, email := '''', email_message := None,
              auth_toasts := auth_toasts st @
                [Toast False ''Magic link sent!'' ''Check your email for the login link.''],
              auth_loading := False \<rparr>
      | Some x \<Rightarrow>
          st\<lparr> auth_toasts := auth_toasts st @ [Toast True ''Error'' (error_description x)],
              auth_loading := False \<rparr>)"

text \<open>
  \<open>form.handleSubmit(onSubmit)\<close> (line 101) with the zod resolver: the field's value
  is parsed; on an issue the message is stored with the field and \<open>onSubmit\<close> is not
  called, otherwise the stored message is cleared and \<open>onSubmit\<close> runs on the value.
\<close>

definition Auth_handleSubmit :: "(string \<Rightarrow> bool) \<Rightarrow> auth_state \<Rightarrow> auth_state" where
  "Auth_handleSubmit is_email st =
     (case Auth_formSchema is_email (email st) of
        Some m \<Rightarrow> st\<lparr> email_message := Some m \<rparr>
      | None \<Rightarrow> Auth_onSubmit_begin (email st) (st\<lparr> email_message := None \<rparr>))"

text \<open>What the returned element tree (lines 79-152) shows of the state.\<close>

record auth_view =
  alert_shown :: bool
  email_input :: string
  form_message :: "string option"
  button_disabled :: bool
  button_label :: string

definition Auth_render :: "auth_state \<Rightarrow> auth_view" where
  "Auth_render st =
     \<lparr> alert_shown = showSuccess st,
       email_input = email st,
       form_message = email_message st,
       button_disabled = auth_loading st,
       button_label = (if auth_loading st then ''Sending magic link'' else ''Send magic link'') \<rparr>"

text \<open>
  The events of the component: the form's submit handler of line 101 is invoked, and
  the pending call settles. The handler has no test of \<open>loading\<close>; what the
  component does against a submit while a call is pending is to render the submit
  button disabled (line 129), which \<open>Auth_render\<close> shows. The browser's own check
  of the \<open>type="email"\<close> input (line 112), which can only withhold a submit event,
  is not part of the component and is left out.
\<close>

datatype auth_event = SubmitForm | OtpSettled "thrown option settled"

fun Auth_step :: "(string \<Rightarrow> bool) \<Rightarrow> auth_event \<Rightarrow> auth_state \<Rightarrow> auth_state" where
  "Auth_step is_email SubmitForm st = Auth_handleSubmit is_email st"
| "Auth_step is_email (OtpSettled r) st = Auth_onSubmit_resume r st"

text \<open>A validator for the worked examples only: the theorems hold for every validator.\<close>

definition has_at_sign :: "string \<Rightarrow> bool" where
  "has_at_sign s = (CHR ''@'' \<in> set s)"

section \<open>The profile component (\<open>Account\<close>)\<close>

text \<open>
  \<open>Session\<close> (lines 36-38) wraps the backend's \<open>User\<close>; the component reads its
  \<open>id\<close> (lines 75 and 105) and its \<open>email\<close> (line 219), which a \<open>User\<close> may lack.
\<close>

record session =
  user_id :: string
  user_email :: "string option"

text \<open>The form's values: the three keys of \<open>formSchema\<close> and of \<open>defaultValues\<close>.\<close>

record profile_fields =
  username :: string
  website :: string
  avatar_url :: string

definition defaultValues :: profile_fields where
  "defaultValues = \<lparr> username = '''', website = '''', avatar_url = '''' \<rparr>"

text \<open>The selected columns of a stored row (line 74); each may be \<open>null\<close>.\<close>

record profile_row =
  row_username :: "string option"
  row_website :: "string option"
  row_avatar_url :: "string option"

text \<open>The response of the \<open>select ... single()\<close> query (lines 72-76).\<close>

record select_response =
  data :: "profile_row option"
  error :: "thrown option"

text \<open>
  The query of lines 72-76 asks the table \<open>profiles\<close> for the rows whose \<open>id\<close> is
  the session's user id and ends in \<open>.single()\<close>. The store's client answers such
  a query with the row when exactly one row matches; for no row (or several) it
  answers with no data and an error object, a plain object with a \<open>message\<close> that
  is not an \<open>Error\<close> instance. The table is the list of its rows with their ids.
\<close>

definition single :: "profile_row list \<Rightarrow> select_response" where
  "single rows =
     (case rows of
        [d] \<Rightarrow> \<lparr> data = Some d, error = None \<rparr>
      | _ \<Rightarrow> \<lparr> data = None,
               error = Some (NonError
                 (Some ''JSON object requested, multiple (or no) rows returned'')) \<rparr>)"

definition select_single :: "(string \<times> profile_row) list \<Rightarrow> string \<Rightarrow> select_response" where
  "select_single profiles uid = single (map snd (filter (\<lambda>(k, d). k = uid) profiles))"

datatype field = Username | Website | Avatar_url

text \<open>An issue's message: the one the schema gives, or the validation library's own
  default when the schema gives none (line 49).\<close>

datatype issue_message = Custom string | Library_default

text \<open>
  \<open>formSchema\<close> (lines 44-50). \<open>z.string().url()\<close> is the library's URL grammar,
  the parameter \<open>is_url\<close>; \<open>.or(z.literal(""))\<close> adds the empty string. The result
  lists the issues, one per failing key, in the order of the keys.
\<close>

definition Account_formSchema :: "(string \<Rightarrow> bool) \<Rightarrow> profile_fields \<Rightarrow> (field \<times> issue_message) list" where
  "Account_formSchema is_url v =
     (if 2 \<le> length (username v) then []
      else [(Username, Custom ''Username must be at least 2 characters.'')]) @
     (if is_url (website v) \<or> website v = '''' then []
      else [(Website, Custom ''Please enter a valid URL'')]) @
     (if is_url (avatar_url v) \<or> avatar_url v = '''' then []
      else [(Avatar_url, Library_default)])"

text \<open>
  The component state: the \<open>useState\<close> cells \<open>loading\<close> (initially \<open>true\<close>) and
  \<open>error\<close>, the form library's values and issues, and, as ghost state, the log of
  collaborator calls (the id of each \<open>select\<close>, the object of each \<open>upsert\<close>) and
  the toasts shown. An upserted object is the list of its keys with their values, in
  insertion order.
\<close>

record account_state =
  account_loading :: bool
  account_error :: "string option"
  form_fields :: profile_fields
  form_errors :: "(field \<times> issue_message) list"
  select_calls :: "string list"
  upsert_calls :: "(string \<times> string) list list"
  account_toasts :: "toast list"

definition Account_init :: account_state where
  "Account_init = \<lparr> account_loading = True, account_error = None,
     form_fields = defaultValues, form_errors = [],
     select_calls = [], upsert_calls = [], account_toasts = [] \<rparr>"

text \<open>\<open>x || ""\<close> on a value that is a string or \<open>null\<close>.\<close>

fun or_empty :: "string option \<Rightarrow> string" where
  "or_empty None = ''''"
| "or_empty (Some s) = s"

text \<open>
  \<open>getProfile\<close> (lines 67-94), split at its \<open>await\<close>: lines 69-76 before it,
  lines 78-93 after it. \<open>form.reset(v)\<close> replaces the values and drops the issues.
  When the response has neither \<open>error\<close> nor \<open>data\<close>, neither branch runs and the
  form is left as it is.
\<close>

definition getProfile_begin :: "session \<Rightarrow> account_state \<Rightarrow> account_state" where
  "getProfile_begin s st =
     st\<lparr> account_loading := True, account_error := None,
         select_calls := select_calls st @ [user_id s] \<rparr>"

fun select_failure :: "select_response settled \<Rightarrow> thrown option" where
  "select_failure (Rejected x) = Some x"
| "select_failure (Resolved r) = error r"

fun select_data :: "select_response settled \<Rightarrow> profile_row option" where
  "select_data (Rejected x) = None"
| "select_data (Resolved r) = data r"

definition getProfile_resume :: "select_response settled \<Rightarrow> account_state \<Rightarrow> account_state" where
  "getProfile_resume r st =
     (case select_failure r of
        Some x \<Rightarrow> st\<lparr> account_error := Some (error_description x), account_loading := False \<rparr>
      | None \<Rightarrow>
          (case select_data r of
             Some d \<Rightarrow>
               st\<lparr> form_fields :=
                     \<lparr> username = or_empty (row_username d),
                       website = or_empty (row_website d),
                       avatar_url = or_empty (row_avatar_url d) \<rparr>,
                   form_errors := [],
                   account_loading := False \<rparr>
           | None \<Rightarrow> st\<lparr> account_loading := False \<rparr>))"

text \<open>
  The object literal of lines 104-108, \<open>{ id, ...values, updated_at }\<close>: a key
  written again keeps its place and takes the new value. \<open>values\<close> is the parsed
  output of the schema, which has the schema's three keys and no other. The
  timestamp of line 107 is the parameter \<open>now\<close>.
\<close>

fun assign :: "string \<times> string \<Rightarrow> (string \<times> string) list \<Rightarrow> (string \<times> string) list" where
  "assign (k, v) [] = [(k, v)]"
| "assign (k, v) ((k', v') # kvs) =
     (if k = k' then (k, v) # kvs else (k', v') # assign (k, v) kvs)"

definition entries :: "profile_fields \<Rightarrow> (string \<times> string) list" where
  "entries v =
     [(''username'', username v), (''website'', website v), (''avatar_url'', avatar_url v)]"

definition updates :: "session \<Rightarrow> string \<Rightarrow> profile_fields \<Rightarrow> (string \<times> string) list" where
  "updates s now v =
     fold assign ([(''id'', user_id s)] @ entries v @ [(''updated_at'', now)]) []"

text \<open>\<open>onSubmit\<close> (lines 99-123), split at its \<open>await\<close>: lines 101-110 and 112-122.\<close>

definition Account_onSubmit_begin :: "session \<Rightarrow> string \<Rightarrow> profile_fields \<Rightarrow> account_state \<Rightarrow> account_state" where
  "Account_onSubmit_begin s now v st =
     st\<lparr> account_loading := True, account_error := None,
         upsert_calls := upsert_calls st @ [updates s now v] \<rparr>"

definition Account_onSubmit_resume :: "thrown option settled \<Rightarrow> account_state \<Rightarrow> account_state" where
  "Account_onSubmit_resume r st =
     (case failure r of
        None \<Rightarrow>
          st\<lparr> account_toasts := account_toasts st @
                [Toast False ''Profile updated'' ''Your profile has been successfully updated.''],
              account_loading := False \<rparr>
      | Some x \<Rightarrow> st\<lparr> account_error := Some (error_description x), account_loading := False \<rparr>)"

text \<open>\<open>form.handleSubmit(onSubmit)\<close> (line 170) with the zod resolver.\<close>

definition Account_handleSubmit :: "(string \<Rightarrow> bool) \<Rightarrow> session \<Rightarrow> string \<Rightarrow> account_state \<Rightarrow> account_state" where
  "Account_handleSubmit is_url s now st =
     (case Account_formSchema is_url (form_fields st) of
        [] \<Rightarrow> Account_onSubmit_begin s now (form_fields st) (st\<lparr> form_errors := [] \<rparr>)
      | i # is \<Rightarrow> st\<lparr> form_errors := i # is \<rparr>)"

text \<open>
  What the returned element tree (lines 133-247) shows of the state. The alert of
  lines 153-157 is guarded by \<open>error &&\<close>, which an empty string fails as \<open>null\<close>
  does. Line 159 chooses between the skeleton and the form on \<open>loading\<close> alone. The
  form has a message slot for \<open>username\<close> (line 183) and one for \<open>website\<close>
  (line 207), and shows the session's email in a disabled input (lines 216-222).
\<close>

record account_view =
  alert :: "string option"
  skeleton_shown :: bool
  form_rendered :: bool
  username_message :: "issue_message option"
  website_message :: "issue_message option"
  email_shown :: "string option"
  submit_disabled :: bool

definition Account_render :: "session \<Rightarrow> account_state \<Rightarrow> account_view" where
  "Account_render s st =
     \<lparr> alert = (case account_error st of
                  None \<Rightarrow> None
                | Some m \<Rightarrow> if m = '''' then None else Some m),
       skeleton_shown = account_loading st,
       form_rendered = (\<not> account_loading st),
       username_message = (if account_loading st then None else map_of (form_errors st) Username),
       website_message = (if account_loading st then None else map_of (form_errors st) Website),
       email_shown = (if account_loading st then None else user_email s),
       submit_disabled = account_loading st \<rparr>"

text \<open>
  The events of the component: the effect of lines 66-97 runs (after the first
  render, and again when \<open>session\<close> changes), the pending query settles, the user asks
  to submit the form (possible when the form is rendered and its button enabled),
  the pending upsert settles. The session is a prop, so each event comes with the
  session current at that time.
\<close>

datatype account_event =
    EffectRun
  | SelectSettled "select_response settled"
  | SubmitProfile
  | UpsertSettled "thrown option settled"

fun Account_step :: "(string \<Rightarrow> bool) \<Rightarrow> session \<Rightarrow> string \<Rightarrow> account_event \<Rightarrow> account_state \<Rightarrow> account_state" where
  "Account_step is_url s now EffectRun st = getProfile_begin s st"
| "Account_step is_url s now (SelectSettled r) st = getProfile_resume r st"
| "Account_step is_url s now SubmitProfile st =
     (if form_rendered (Account_render s st) \<and> \<not> submit_disabled (Account_render s st)
      then Account_handleSubmit is_url s now st else st)"
| "Account_step is_url s now (UpsertSettled r) st = Account_onSubmit_resume r st"

text \<open>A validator for the worked examples only: the theorems hold for every validator.\<close>

definition starts_with_https :: "string \<Rightarrow> bool" where
  "starts_with_https s = (take 8 s = ''https://'')"

text \<open>A run of the component: the events in order, each with the session prop of its time.\<close>

fun Account_run :: "(string \<Rightarrow> bool) \<Rightarrow> string \<Rightarrow> (session \<times> account_event) list \<Rightarrow> account_state \<Rightarrow> account_state" where
  "Account_run is_url now [] st = st"
| "Account_run is_url now ((s, ev) # evs) st =
     Account_run is_url now evs (Account_step is_url s now ev st)"

subsection \<open>Inputs of the worked examples\<close>

definition alice :: session where
  "alice = \<lparr> user_id = ''u-alice'', user_email = Some ''alice@example.com'' \<rparr>"

definition bob :: session where
  "bob = \<lparr> user_id = ''u-bob'', user_email = Some ''bob@example.com'' \<rparr>"

definition alice_row :: profile_row where
  "alice_row = \<lparr> row_username = Some ''alice'', row_website = None, row_avatar_url = None \<rparr>"

text \<open>A sign-in form with a call in flight.\<close>

definition auth_pending :: auth_state where
  "auth_pending = Auth_onSubmit_begin ''a@b.co'' (Auth_init\<lparr> email := ''a@b.co'' \<rparr>)"

text \<open>A profile form after a load, holding the given values.\<close>

definition loaded :: "profile_fields \<Rightarrow> account_state" where
  "loaded v = Account_init\<lparr> account_loading := False, form_fields := v \<rparr>"

text \<open>A store that holds a profile for \<open>alice\<close> and none for \<open>bob\<close>.\<close>

definition stored_profiles :: "(string \<times> profile_row) list" where
  "stored_profiles = [(''u-alice'', alice_row)]"

text \<open>The component is mounted for \<open>bob\<close>: the effect runs and the query settles.\<close>

definition first_load_run :: account_state where
  "first_load_run =
     Account_run starts_with_https ''2024-01-01T00:00:00.000Z''
       [(bob, EffectRun),
        (bob, SelectSettled (Resolved (select_single stored_profiles (user_id bob))))]
       Account_init"

text \<open>
  The component stays mounted while the session changes: the effect runs for
  \<open>alice\<close>, whose row is found, then again for \<open>bob\<close>.
\<close>

definition reload_run :: account_state where
  "reload_run =
     Account_run starts_with_https ''2024-01-01T00:00:00.000Z''
       [(alice, EffectRun),
        (alice, SelectSettled (Resolved (select_single stored_profiles (user_id alice)))),
        (bob, EffectRun),
        (bob, SelectSettled (Resolved (select_single stored_profiles (user_id bob))))]
       Account_init"

text \<open>The first load of a mounted component fails.\<close>

definition failed_load_run :: account_state where
  "failed_load_run =
     Account_run starts_with_https ''2024-01-01T00:00:00.000Z''
       [(alice, EffectRun),
        (alice, SelectSettled (Rejected (ErrorInstance ''Failed to fetch'')))]
       Account_init"

section \<open>Facts about the definitions\<close>

lemma updates_eq:
  "updates s now v =
     [(''id'', user_id s), (''username'', username v), (''website'', website v),
      (''avatar_url'', avatar_url v), (''updated_at'', now)]"
  by (simp add: updates_def entries_def)

lemma handleSubmit_accepts:
  "Account_formSchema is_url (form_fields st) = [] \<Longrightarrow>
     Account_handleSubmit is_url s now st =
       Account_onSubmit_begin s now (form_fields st) (st\<lparr> form_errors := [] \<rparr>)"
  by (simp add: Account_handleSubmit_def)






lemma first_load_run_eq:
  "first_load_run =
     \<lparr> account_loading = False, account_error = Some ''An error occurred'',
       form_fields = defaultValues, form_errors = [], select_calls = [''u-bob''],
       upsert_calls = [], account_toasts = [] \<rparr>"
  by (simp add: first_load_run_def Account_init_def bob_def stored_profiles_def
      select_single_def single_def getProfile_begin_def getProfile_resume_def)

lemma reload_run_eq:
  "reload_run =
     \<lparr> account_loading = False, account_error = Some ''An error occurred'',
       form_fields = \<lparr> username = ''alice'', website = '''', avatar_url = '''' \<rparr>,
       form_errors = [], select_calls = [''u-alice'', ''u-bob''], upsert_calls = [],
       account_toasts = [] \<rparr>"
  by (simp add: reload_run_def Account_init_def defaultValues_def alice_def bob_def
      alice_row_def stored_profiles_def select_single_def single_def
      getProfile_begin_def getProfile_resume_def)

lemma failed_load_run_eq:
  "failed_load_run =
     \<lparr> account_loading = False, account_error = Some ''Failed to fetch'',
       form_fields = defaultValues, form_errors = [], select_calls = [''u-alice''],
       upsert_calls = [], account_toasts = [] \<rparr>"
  by (simp add: failed_load_run_def Account_init_def alice_def
      getProfile_begin_def getProfile_resume_def)

section \<open>The profile load\<close>

text \<open>
  C1. Claim: for every session whose user id has no stored profile, load completes
  with the editable fields at their defaults (empty username, website and avatar
  URL) and ends succeeded, not failed.

  The code does not do this. The query ends in \<open>.single()\<close>, which answers a
  missing row with an error object; line 78 throws it and the handler of line 90
  stores a message, so the load ends failed. The component is mounted for \<open>bob\<close>,
  who has no row in the store: the load ends with \<open>loading = false\<close> and
  \<open>error = "An error occurred"\<close>, shown in the alert. The branch of line 82, which
  is there for an answer without data, has no \<open>else\<close> either: when the component
  stays mounted and the session changes from \<open>alice\<close>, whose row is found, to
  \<open>bob\<close>, the form keeps the username of \<open>alice\<close>.
\<close>

theorem load_without_record_fails:
  "map_of stored_profiles (user_id bob) = None \<and>
   select_single stored_profiles (user_id bob) =
     \<lparr> data = None,
       error = Some (NonError (Some ''JSON object requested, multiple (or no) rows returned'')) \<rparr> \<and>
   account_loading first_load_run = False \<and>
   account_error first_load_run = Some ''An error occurred'' \<and>
   alert (Account_render bob first_load_run) = Some ''An error occurred'' \<and>
   form_fields first_load_run = defaultValues \<and>
   select_calls reload_run = [''u-alice'', ''u-bob''] \<and>
   account_error reload_run = Some ''An error occurred'' \<and>
   username (form_fields reload_run) = ''alice''"
  by (simp add: first_load_run_eq reload_run_eq Account_render_def
      stored_profiles_def bob_def select_single_def single_def)

text \<open>
  C2. Claim: whenever load ends failed, the editable form is not rendered (only the
  failure message is shown) until the user retries the load; the form becomes
  interactive only when the load has succeeded.

  The code gates the form on \<open>loading\<close> alone (line 159), and \<open>getProfile\<close> clears
  \<open>loading\<close> on every path. So after a failed load the message is stored and
  shown in the alert (unless it is the empty string), and the form is rendered
  beside it with its submit button enabled and its fields as they were before the
  load. The form is replaced by the skeleton exactly while \<open>loading\<close> is true.
\<close>

theorem form_shown_after_failed_load:
  "form_rendered (Account_render s st) = (\<not> account_loading st) \<and>
   skeleton_shown (Account_render s st) = account_loading st \<and>
   (select_failure r = Some x \<longrightarrow>
      account_error (getProfile_resume r (getProfile_begin s st)) =
        Some (error_description x) \<and>
      alert (Account_render s (getProfile_resume r (getProfile_begin s st))) =
        (if error_description x = '''' then None else Some (error_description x)) \<and>
      form_rendered (Account_render s (getProfile_resume r (getProfile_begin s st))) \<and>
      \<not> submit_disabled (Account_render s (getProfile_resume r (getProfile_begin s st))) \<and>
      form_fields (getProfile_resume r (getProfile_begin s st)) = form_fields st)"
  by (simp add: Account_render_def getProfile_resume_def getProfile_begin_def)

theorem form_shown_after_failed_load_witness:
  "select_failure (Resolved \<lparr> data = None, error = Some (ErrorInstance ''timeout'') \<rparr>) =
     Some (ErrorInstance ''timeout'') \<and>
   account_error (getProfile_resume
       (Resolved \<lparr> data = None, error = Some (ErrorInstance ''timeout'') \<rparr>)
       (getProfile_begin bob Account_init)) = Some ''timeout'' \<and>
   alert (Account_render bob (getProfile_resume
       (Resolved \<lparr> data = None, error = Some (ErrorInstance ''timeout'') \<rparr>)
       (getProfile_begin bob Account_init))) = Some ''timeout'' \<and>
   form_rendered (Account_render bob (getProfile_resume
       (Resolved \<lparr> data = None, error = Some (ErrorInstance ''timeout'') \<rparr>)
       (getProfile_begin bob Account_init)))"
  using form_shown_after_failed_load
    [of bob Account_init "Resolved \<lparr> data = None, error = Some (ErrorInstance ''timeout'') \<rparr>"
        "ErrorInstance ''timeout''"]
  by simp

text \<open>
  As stated the claim fails on the first load of a mounted component when the query
  is rejected: the run ends with the error stored, the skeleton gone and the form
  rendered with its submit button enabled.
\<close>

theorem form_hidden_after_failed_load_counterexample:
  "account_error failed_load_run = Some ''Failed to fetch'' \<and>
   alert (Account_render alice failed_load_run) = Some ''Failed to fetch'' \<and>
   skeleton_shown (Account_render alice failed_load_run) = False \<and>
   form_rendered (Account_render alice failed_load_run) = True \<and>
   submit_disabled (Account_render alice failed_load_run) = False"
  by (simp add: failed_load_run_eq Account_render_def)

section \<open>The sign-in form\<close>

text \<open>
  C3. Claim: a submit of the sign-in form while the flow is pending is a no-op: no
  further \<open>signInWithOtp\<close> call is made and the state does not change.

  The flow is pending while \<open>loading\<close> is true. The component's guard is the submit
  button, rendered disabled exactly then (line 129): disabled after an accepted
  submit, enabled again when the call has settled. The submit handler itself does
  not test \<open>loading\<close>: invoked with a valid email it logs a call, pending or not.
\<close>

theorem submit_button_disabled_while_pending:
  "button_disabled (Auth_render st) = auth_loading st \<and>
   (is_email (email st) \<longrightarrow>
      button_disabled (Auth_render (Auth_step is_email SubmitForm st)) \<and>
      \<not> button_disabled (Auth_render
          (Auth_step is_email (OtpSettled r) (Auth_step is_email SubmitForm st))) \<and>
      signInWithOtp_calls (Auth_step is_email SubmitForm st) =
        signInWithOtp_calls st @ [email st])"
  by (simp add: Auth_render_def Auth_handleSubmit_def Auth_formSchema_def
      Auth_onSubmit_begin_def Auth_onSubmit_resume_def split: option.split)

theorem submit_button_disabled_while_pending_witness:
  "has_at_sign (email (Auth_init\<lparr> email := ''a@b.co'' \<rparr>)) \<and>
   button_disabled (Auth_render (Auth_init\<lparr> email := ''a@b.co'' \<rparr>)) = False \<and>
   button_disabled (Auth_render
     (Auth_step has_at_sign SubmitForm (Auth_init\<lparr> email := ''a@b.co'' \<rparr>))) = True \<and>
   button_disabled (Auth_render
     (Auth_step has_at_sign (OtpSettled (Resolved None))
       (Auth_step has_at_sign SubmitForm (Auth_init\<lparr> email := ''a@b.co'' \<rparr>)))) = False \<and>
   signInWithOtp_calls
     (Auth_step has_at_sign SubmitForm (Auth_init\<lparr> email := ''a@b.co'' \<rparr>)) = [''a@b.co'']"
proof -
  have valid: "has_at_sign (email (Auth_init\<lparr> email := ''a@b.co'' \<rparr>))"
    by (simp add: has_at_sign_def)
  show ?thesis
    using valid
      submit_button_disabled_while_pending
        [where is_email = has_at_sign and st = "Auth_init\<lparr> email := ''a@b.co'' \<rparr>"
           and r = "Resolved None"]
    by (simp add: Auth_init_def)
qed

text \<open>
  As stated the claim fails when the handler is invoked while a call is in flight:
  the state changes and a second call with the same email is logged.
\<close>

theorem reentrant_submit_counterexample:
  "auth_loading auth_pending \<and>
   signInWithOtp_calls auth_pending = [''a@b.co''] \<and>
   signInWithOtp_calls (Auth_step has_at_sign SubmitForm auth_pending) =
     [''a@b.co'', ''a@b.co''] \<and>
   Auth_step has_at_sign SubmitForm auth_pending \<noteq> auth_pending"
proof -
  have calls: "signInWithOtp_calls (Auth_step has_at_sign SubmitForm auth_pending) =
      [''a@b.co'', ''a@b.co'']"
    by (simp add: auth_pending_def Auth_init_def Auth_handleSubmit_def Auth_formSchema_def
        Auth_onSubmit_begin_def has_at_sign_def)
  have before: "signInWithOtp_calls auth_pending = [''a@b.co'']"
    by (simp add: auth_pending_def Auth_init_def Auth_onSubmit_begin_def)
  have changed: "Auth_step has_at_sign SubmitForm auth_pending \<noteq> auth_pending"
  proof
    assume "Auth_step has_at_sign SubmitForm auth_pending = auth_pending"
    then have "signInWithOtp_calls (Auth_step has_at_sign SubmitForm auth_pending) =
        signInWithOtp_calls auth_pending"
      by simp
    with calls before show False by simp
  qed
  have pending: "auth_loading auth_pending"
    by (simp add: auth_pending_def Auth_onSubmit_begin_def)
  from pending before calls changed show ?thesis by simp
qed

text \<open>
  C4. Claim: for every syntactically invalid email string, submit makes no call to
  the identity collaborator and the flow stays idle; the field gets validation
  feedback instead.

  From a state that is not pending, a submit whose email the schema rejects changes
  one thing: the field's message. No call is logged, \<open>loading\<close> stays false, and
  the rendered form shows the schema's message under the field.
\<close>

theorem invalid_email_not_sent:
  "\<not> is_email (email st) \<Longrightarrow> \<not> auth_loading st \<Longrightarrow>
     Auth_step is_email SubmitForm st =
       st\<lparr> email_message := Some ''Please enter a valid email address.'' \<rparr> \<and>
     signInWithOtp_calls (Auth_step is_email SubmitForm st) = signInWithOtp_calls st \<and>
     auth_loading (Auth_step is_email SubmitForm st) = False \<and>
     showSuccess (Auth_step is_email SubmitForm st) = showSuccess st \<and>
     email (Auth_step is_email SubmitForm st) = email st \<and>
     form_message (Auth_render (Auth_step is_email SubmitForm st)) =
       Some ''Please enter a valid email address.''"
  by (simp add: Auth_render_def Auth_handleSubmit_def Auth_formSchema_def)

theorem invalid_email_not_sent_witness:
  "\<not> has_at_sign ''not-an-email'' \<and>
   \<not> auth_loading (Auth_init\<lparr> email := ''not-an-email'' \<rparr>) \<and>
   signInWithOtp_calls
     (Auth_step has_at_sign SubmitForm (Auth_init\<lparr> email := ''not-an-email'' \<rparr>)) = [] \<and>
   auth_loading
     (Auth_step has_at_sign SubmitForm (Auth_init\<lparr> email := ''not-an-email'' \<rparr>)) = False \<and>
   email_message
     (Auth_step has_at_sign SubmitForm (Auth_init\<lparr> email := ''not-an-email'' \<rparr>)) =
     Some ''Please enter a valid email address.''"
proof -
  have invalid: "\<not> has_at_sign (email (Auth_init\<lparr> email := ''not-an-email'' \<rparr>))"
    by (simp add: has_at_sign_def)
  have idle: "\<not> auth_loading (Auth_init\<lparr> email := ''not-an-email'' \<rparr>)"
    by (simp add: Auth_init_def)
  show ?thesis
    using invalid idle
      invalid_email_not_sent
        [where is_email = has_at_sign and st = "Auth_init\<lparr> email := ''not-an-email'' \<rparr>",
         OF invalid idle]
    by (simp add: Auth_init_def)
qed

text \<open>
  C6. Claim: for every syntactically valid email string, one submit makes exactly
  one \<open>signInWithOtp\<close> call, and the notice flag \<open>showSuccess\<close> becomes true if and
  only if that call succeeds; on success the input is cleared, on failure its value
  is kept.

  From a state that is not pending: the submit logs one call, with the email, and
  sets \<open>loading\<close>; when the call settles no further call is logged, \<open>showSuccess\<close>
  is true exactly when nothing was thrown, and the email value is empty on success
  and unchanged on failure.
\<close>

theorem valid_email_one_call:
  assumes "is_email (email st)" and "\<not> auth_loading st"
  shows "let st1 = Auth_step is_email SubmitForm st;
             st2 = Auth_step is_email (OtpSettled r) st1
         in auth_loading st1 \<and>
            signInWithOtp_calls st1 = signInWithOtp_calls st @ [email st] \<and>
            signInWithOtp_calls st2 = signInWithOtp_calls st @ [email st] \<and>
            showSuccess st2 = (failure r = None) \<and>
            alert_shown (Auth_render st2) = (failure r = None) \<and>
            email st2 = (if failure r = None then '''' else email st) \<and>
            auth_loading st2 = False"
  using assms
  by (simp add: Auth_render_def Auth_handleSubmit_def Auth_formSchema_def
      Auth_onSubmit_begin_def Auth_onSubmit_resume_def Let_def split: option.split)

theorem valid_email_one_call_witness:
  "has_at_sign ''a@b.co'' \<and>
   \<not> auth_loading (Auth_init\<lparr> email := ''a@b.co'' \<rparr>) \<and>
   signInWithOtp_calls
     (Auth_step has_at_sign (OtpSettled (Resolved None))
       (Auth_step has_at_sign SubmitForm (Auth_init\<lparr> email := ''a@b.co'' \<rparr>))) = [''a@b.co''] \<and>
   showSuccess
     (Auth_step has_at_sign (OtpSettled (Resolved None))
       (Auth_step has_at_sign SubmitForm (Auth_init\<lparr> email := ''a@b.co'' \<rparr>))) = True \<and>
   email
     (Auth_step has_at_sign (OtpSettled (Resolved None))
       (Auth_step has_at_sign SubmitForm (Auth_init\<lparr> email := ''a@b.co'' \<rparr>))) = '''' \<and>
   showSuccess
     (Auth_step has_at_sign (OtpSettled (Resolved (Some (ErrorInstance ''rate limit''))))
       (Auth_step has_at_sign SubmitForm (Auth_init\<lparr> email := ''a@b.co'' \<rparr>))) = False \<and>
   email
     (Auth_step has_at_sign (OtpSettled (Resolved (Some (ErrorInstance ''rate limit''))))
       (Auth_step has_at_sign SubmitForm (Auth_init\<lparr> email := ''a@b.co'' \<rparr>))) = ''a@b.co''"
proof -
  have valid: "has_at_sign (email (Auth_init\<lparr> email := ''a@b.co'' \<rparr>))"
    by (simp add: has_at_sign_def)
  have idle: "\<not> auth_loading (Auth_init\<lparr> email := ''a@b.co'' \<rparr>)"
    by (simp add: Auth_init_def)
  show ?thesis
    using valid idle
      valid_email_one_call
        [where is_email = has_at_sign and st = "Auth_init\<lparr> email := ''a@b.co'' \<rparr>"
           and r = "Resolved None", OF valid idle]
      valid_email_one_call
        [where is_email = has_at_sign and st = "Auth_init\<lparr> email := ''a@b.co'' \<rparr>"
           and r = "Resolved (Some (ErrorInstance ''rate limit''))", OF valid idle]
    by (simp add: Auth_init_def Let_def)
qed

section \<open>The profile submission\<close>




text \<open>
  C7. Claim: when the \<open>upsert\<close> call of a profile submission fails, the submit state
  becomes failed with a message and the editable fields are exactly as they were
  before the submission.

  For an accepted submission from the rendered form whose call then throws:
  \<open>loading\<close> is set while the call is pending; afterwards \<open>error\<close> holds the
  message derived from the thrown value, \<open>loading\<close> is false, and the three values
  are those the form held before the submit.
\<close>

theorem failed_submit_keeps_fields:
  assumes "\<not> account_loading st"
    and "Account_formSchema is_url (form_fields st) = []"
    and "failure r = Some x"
  shows "let st1 = Account_step is_url s now SubmitProfile st;
             st2 = Account_step is_url s now (UpsertSettled r) st1
         in account_loading st1 \<and>
            account_error st2 = Some (error_description x) \<and>
            account_loading st2 = False \<and>
            form_fields st2 = form_fields st"
  using assms
  by (simp add: Account_render_def handleSubmit_accepts Account_onSubmit_begin_def
      Account_onSubmit_resume_def)

theorem failed_submit_keeps_fields_witness:
  "\<not> account_loading (loaded \<lparr> username = ''Jo'', website = '''', avatar_url = '''' \<rparr>) \<and>
   Account_formSchema starts_with_https \<lparr> username = ''Jo'', website = '''', avatar_url = '''' \<rparr> = [] \<and>
   failure (Resolved (Some (ErrorInstance ''connection lost''))) =
     Some (ErrorInstance ''connection lost'') \<and>
   account_error
     (Account_step starts_with_https alice ''2024-01-01T00:00:00.000Z''
       (UpsertSettled (Resolved (Some (ErrorInstance ''connection lost''))))
       (Account_step starts_with_https alice ''2024-01-01T00:00:00.000Z'' SubmitProfile
         (loaded \<lparr> username = ''Jo'', website = '''', avatar_url = '''' \<rparr>))) =
     Some ''connection lost'' \<and>
   form_fields
     (Account_step starts_with_https alice ''2024-01-01T00:00:00.000Z''
       (UpsertSettled (Resolved (Some (ErrorInstance ''connection lost''))))
       (Account_step starts_with_https alice ''2024-01-01T00:00:00.000Z'' SubmitProfile
         (loaded \<lparr> username = ''Jo'', website = '''', avatar_url = '''' \<rparr>))) =
     \<lparr> username = ''Jo'', website = '''', avatar_url = '''' \<rparr>"
proof -
  have rendered: "\<not> account_loading (loaded \<lparr> username = ''Jo'', website = '''', avatar_url = '''' \<rparr>)"
    by (simp add: loaded_def)
  have clean: "Account_formSchema starts_with_https
      (form_fields (loaded \<lparr> username = ''Jo'', website = '''', avatar_url = '''' \<rparr>)) = []"
    by (simp add: loaded_def Account_formSchema_def)
  have thrown: "failure (Resolved (Some (ErrorInstance ''connection lost''))) =
      Some (ErrorInstance ''connection lost'')"
    by simp
  show ?thesis
    using rendered clean thrown
      failed_submit_keeps_fields
        [where s = alice and now = "''2024-01-01T00:00:00.000Z''", OF rendered clean thrown]
    by (simp add: loaded_def Let_def)
qed

text \<open>
  C10. Claim: for every accepted profile submission, the object sent to \<open>upsert\<close>
  has exactly the keys \<open>id\<close> (the session's user id), \<open>username\<close>, \<open>website\<close>,
  \<open>avatar_url\<close> and \<open>updated_at\<close>; the session's email, shown read-only in the
  form, is not written to the store.

  An accepted submit from the rendered form logs one \<open>upsert\<close> call whose object
  is those five keys with the user id, the three form values and the timestamp.
  The object has no \<open>email\<close> key and does not depend on the session's email.
\<close>

theorem upsert_record_fields:
  assumes "\<not> account_loading st"
    and "Account_formSchema is_url (form_fields st) = []"
  shows "upsert_calls (Account_step is_url s now SubmitProfile st) =
           upsert_calls st @
             [[(''id'', user_id s), (''username'', username (form_fields st)),
               (''website'', website (form_fields st)),
               (''avatar_url'', avatar_url (form_fields st)), (''updated_at'', now)]] \<and>
         map fst (updates s now (form_fields st)) =
           [''id'', ''username'', ''website'', ''avatar_url'', ''updated_at''] \<and>
         map_of (updates s now (form_fields st)) ''id'' = Some (user_id s) \<and>
         map_of (updates s now (form_fields st)) ''email'' = None \<and>
         updates (s\<lparr> user_email := e \<rparr>) now (form_fields st) = updates s now (form_fields st)"
  using assms
  by (simp add: Account_render_def handleSubmit_accepts Account_onSubmit_begin_def updates_eq)

theorem upsert_record_fields_witness:
  "\<not> account_loading (loaded \<lparr> username = ''Jo'', website = ''https://jo.example'', avatar_url = '''' \<rparr>) \<and>
   Account_formSchema starts_with_https
     \<lparr> username = ''Jo'', website = ''https://jo.example'', avatar_url = '''' \<rparr> = [] \<and>
   email_shown (Account_render alice
     (loaded \<lparr> username = ''Jo'', website = ''https://jo.example'', avatar_url = '''' \<rparr>)) =
     Some ''alice@example.com'' \<and>
   upsert_calls (Account_step starts_with_https alice ''2024-01-01T00:00:00.000Z'' SubmitProfile
     (loaded \<lparr> username = ''Jo'', website = ''https://jo.example'', avatar_url = '''' \<rparr>)) =
     [[(''id'', ''u-alice''), (''username'', ''Jo''), (''website'', ''https://jo.example''),
       (''avatar_url'', ''''), (''updated_at'', ''2024-01-01T00:00:00.000Z'')]]"
proof -
  have rendered: "\<not> account_loading
      (loaded \<lparr> username = ''Jo'', website = ''https://jo.example'', avatar_url = '''' \<rparr>)"
    by (simp add: loaded_def)
  have clean: "Account_formSchema starts_with_https
      (form_fields (loaded \<lparr> username = ''Jo'', website = ''https://jo.example'', avatar_url = '''' \<rparr>)) = []"
    by (simp add: loaded_def Account_formSchema_def starts_with_https_def)
  show ?thesis
    using rendered clean
      upsert_record_fields
        [where s = alice and now = "''2024-01-01T00:00:00.000Z''", OF rendered clean]
    by (simp add: loaded_def Account_init_def Account_render_def alice_def)
qed

section \<open>Failures and the pending flag, in both components\<close>

text \<open>
  C8. Claim: on every collaborator failure in either flow the failed state carries
  a human-readable message: the underlying error's message when it has one, and
  the string "An error occurred" when the thrown value carries no message.

  The handlers decide on \<open>instanceof Error\<close>, not on whether a message is there.
  In all three handlers the message is the thrown value's own when the value is
  an \<open>Error\<close> instance, whatever that message is, and "An error occurred" for every
  other thrown value. The sign-in form puts it in the description of an error
  toast; the profile component stores it in \<open>error\<close>.
\<close>

theorem failure_message_by_instance:
  assumes "failure r = Some x" and "select_failure q = Some y"
  shows "auth_toasts (Auth_onSubmit_resume r a) =
           auth_toasts a @ [Toast True ''Error''
             (case x of ErrorInstance m \<Rightarrow> m | NonError p \<Rightarrow> ''An error occurred'')] \<and>
         account_error (getProfile_resume q b) =
           Some (case y of ErrorInstance m \<Rightarrow> m | NonError p \<Rightarrow> ''An error occurred'') \<and>
         account_error (Account_onSubmit_resume r c) =
           Some (case x of ErrorInstance m \<Rightarrow> m | NonError p \<Rightarrow> ''An error occurred'')"
  using assms
  by (cases x; cases y)
     (simp_all add: Auth_onSubmit_resume_def getProfile_resume_def Account_onSubmit_resume_def)

theorem failure_message_by_instance_witness:
  "failure (Resolved (Some (ErrorInstance ''Email rate limit exceeded''))) =
     Some (ErrorInstance ''Email rate limit exceeded'') \<and>
   select_failure (Rejected (NonError None)) = Some (NonError None) \<and>
   auth_toasts (Auth_onSubmit_resume
       (Resolved (Some (ErrorInstance ''Email rate limit exceeded''))) auth_pending) =
     [Toast True ''Error'' ''Email rate limit exceeded''] \<and>
   account_error (getProfile_resume (Rejected (NonError None))
       (getProfile_begin alice Account_init)) = Some ''An error occurred'' \<and>
   account_error (Account_onSubmit_resume
       (Resolved (Some (ErrorInstance ''Email rate limit exceeded''))) (loaded defaultValues)) =
     Some ''Email rate limit exceeded''"
proof -
  have thrown: "failure (Resolved (Some (ErrorInstance ''Email rate limit exceeded''))) =
      Some (ErrorInstance ''Email rate limit exceeded'')"
    by simp
  have rejected: "select_failure (Rejected (NonError None)) = Some (NonError None)"
    by simp
  show ?thesis
    using thrown rejected
      failure_message_by_instance
        [where a = auth_pending and b = "getProfile_begin alice Account_init"
           and c = "loaded defaultValues", OF thrown rejected]
    by (simp add: auth_pending_def Auth_onSubmit_begin_def Auth_init_def)
qed

text \<open>
  As stated the claim fails for a thrown value that is not an \<open>Error\<close> instance but
  has a message, such as a plain error object returned by the store's client: the
  message is replaced by the generic string. It also fails for an \<open>Error\<close> with
  the empty message: the stored message is empty, and the alert is not shown.
\<close>

theorem failure_message_counterexample:
  "message_of (NonError (Some ''permission denied for table profiles'')) =
     Some ''permission denied for table profiles'' \<and>
   account_error (getProfile_resume
       (Resolved \<lparr> data = None,
                   error = Some (NonError (Some ''permission denied for table profiles'')) \<rparr>)
       (getProfile_begin alice Account_init)) = Some ''An error occurred'' \<and>
   account_error (getProfile_resume (Rejected (ErrorInstance ''''))
       (getProfile_begin alice Account_init)) = Some '''' \<and>
   alert (Account_render alice (getProfile_resume (Rejected (ErrorInstance ''''))
       (getProfile_begin alice Account_init))) = None"
  by (simp add: getProfile_resume_def Account_render_def)

text \<open>
  C9. Claim: in every load or submit of either flow, once the collaborator call
  has settled, with success or failure, the operation's pending flag is false again.

  Each of the three continuations (the \<open>finally\<close> clauses of Auth.tsx lines 74-76
  and of the profile component's lines 91-93 and 120-122) ends with \<open>loading\<close>
  false, from every state and however the call settled.
\<close>

theorem pending_flag_reset:
  "auth_loading (Auth_onSubmit_resume r a) = False \<and>
   account_loading (getProfile_resume q b) = False \<and>
   account_loading (Account_onSubmit_resume r' c) = False"
  by (simp add: Auth_onSubmit_resume_def getProfile_resume_def Account_onSubmit_resume_def
      split: option.split)

end
